theory Spec2Isabelle
  imports Complex_Main
begin

section \<open>JavaScript values\<close>

text \<open>
  A JavaScript \<^verbatim>\<open>number\<close> is a binary64 value: not-a-number, one of the two
  infinities, or a finite value. A finite value is modelled by the real number it
  denotes, so comparisons are the comparisons of those reals. Where the pages compute
  with numbers, the result is rounded to binary64: that rounding is a parameter of the
  functions concerned.
\<close>

datatype number = NaN | NegInfinity | Finite real | Infinity

text \<open>
  The optional numeric fields of \<^verbatim>\<open>FutureData\<close> are declared \<^verbatim>\<open>number | undefined\<close>;
  the helpers of the pages also test for \<^verbatim>\<open>null\<close>, which a JSON payload can carry.
\<close>

datatype 'a optional = Undefined | Null | Value 'a

text \<open>\<^verbatim>\<open>ToNumber\<close>, as the relational operators apply it to their operands.\<close>

fun ToNumber :: "number optional \<Rightarrow> number" where
  "ToNumber Undefined = NaN"
| "ToNumber Null = Finite 0"
| "ToNumber (Value n) = n"

text \<open>The comparison \<^verbatim>\<open>x < y\<close> of two numbers: false as soon as one is NaN.\<close>

fun num_less :: "number \<Rightarrow> number \<Rightarrow> bool" where
  "num_less NaN y = False"
| "num_less x NaN = False"
| "num_less (Finite x) (Finite y) = (x < y)"
| "num_less NegInfinity NegInfinity = False"
| "num_less NegInfinity y = True"
| "num_less x NegInfinity = False"
| "num_less Infinity y = False"
| "num_less x Infinity = True"

text \<open>\<^verbatim>\<open>x >= y\<close>: neither operand is NaN and \<^verbatim>\<open>x < y\<close> is false.\<close>

definition num_ge :: "number \<Rightarrow> number \<Rightarrow> bool" where
  "num_ge x y = (x \<noteq> NaN \<and> y \<noteq> NaN \<and> \<not> num_less x y)"

definition js_lt :: "number optional \<Rightarrow> number optional \<Rightarrow> bool" where
  "js_lt a b = num_less (ToNumber a) (ToNumber b)"

definition js_gt :: "number optional \<Rightarrow> number optional \<Rightarrow> bool" where
  "js_gt a b = num_less (ToNumber b) (ToNumber a)"

text \<open>
  The product \<^verbatim>\<open>x * y\<close>. The exact product of two finite values is rounded to the
  nearest binary64 value, to an infinity when it is out of range: \<open>rnd\<close> is that rounding,
  from the real result to the number the operation returns. A literal of the source that
  is not a binary64 value, such as \<^verbatim>\<open>0.7\<close>, stands for its rounding too. An infinity times
  zero is NaN.
\<close>

fun num_sign :: "number \<Rightarrow> real" where
  "num_sign NaN = 0"
| "num_sign NegInfinity = - 1"
| "num_sign Infinity = 1"
| "num_sign (Finite x) = sgn x"

fun num_mult :: "(real \<Rightarrow> number) \<Rightarrow> number \<Rightarrow> number \<Rightarrow> number" where
  "num_mult rnd NaN y = NaN"
| "num_mult rnd x NaN = NaN"
| "num_mult rnd (Finite x) (Finite y) = rnd (x * y)"
| "num_mult rnd x y =
     (if num_sign x * num_sign y = 0 then NaN
      else if 0 < num_sign x * num_sign y then Infinity else NegInfinity)"

subsection \<open>\<^verbatim>\<open>Number.prototype.toFixed\<close>\<close>

definition digit_char :: "nat \<Rightarrow> char" where
  "digit_char n = ''0123456789'' ! n"

function decimal :: "nat \<Rightarrow> string" where
  "decimal n =
     (if n < 10 then [digit_char n] else decimal (n div 10) @ [digit_char (n mod 10)])"
  by pat_completeness auto
termination
  by (relation "measure id") auto

declare decimal.simps [simp del]

text \<open>
  The digits of a value \<open>0 \<le> x < 10\<^sup>2\<^sup>1\<close> with \<open>f\<close> fraction digits: \<open>n\<close> is the
  integer for which \<open>n / 10\<^sup>f - x\<close> is closest to zero, the larger one on a tie; its
  decimal digits are padded with zeros on the left to \<open>f + 1\<close> characters, and the
  point goes before the last \<open>f\<close>.
\<close>

definition fixed_digits :: "real \<Rightarrow> nat \<Rightarrow> string" where
  "fixed_digits x f =
     (let n = nat \<lfloor>x * 10 ^ f + 1 / 2\<rfloor>;
          m = decimal n;
          m = (if f \<noteq> 0 \<and> length m \<le> f
               then replicate (f + 1 - length m) CHR ''0'' @ m else m)
      in if f \<noteq> 0 then take (length m - f) m @ ''.'' @ drop (length m - f) m else m)"

text \<open>
  \<^verbatim>\<open>num.toFixed(f)\<close>. For a magnitude of at least \<open>10\<^sup>2\<^sup>1\<close> the result is the
  exponential notation of \<^verbatim>\<open>Number::toString\<close>, whose digits depend on the binary64
  representation: that rendering is the parameter \<open>ts\<close>. Every call of the pages passes
  0, 1, 2 or 4 fraction digits, so the \<^verbatim>\<open>RangeError\<close> for more than 100 is left out.
\<close>

definition toFixed :: "(real \<Rightarrow> string) \<Rightarrow> number \<Rightarrow> nat \<Rightarrow> string" where
  "toFixed ts num f =
     (case num of
        NaN \<Rightarrow> ''NaN''
      | Infinity \<Rightarrow> ''Infinity''
      | NegInfinity \<Rightarrow> ''-Infinity''
      | Finite x \<Rightarrow>
          (if x < 0 then ''-'' else []) @
          (if 10 ^ 21 \<le> \<bar>x\<bar> then ts \<bar>x\<bar> else fixed_digits \<bar>x\<bar> f))"

section \<open>The types of the front end\<close>

text \<open>The interface \<^verbatim>\<open>InstrumentData\<close>: a row of the dashboard table.\<close>

record InstrumentData =
  symbol :: string
  perpetual_symbol :: string
  futures_symbol :: string
  perpetual_price :: number
  futures_price :: number
  spread_percent :: number
  funding_rate :: number
  avg_funding_rate :: number
  days_until_expiration :: number
  net_profit_percent :: number
  return_on_capital :: number
  timestamp :: string

text \<open>
  The interface \<^verbatim>\<open>FutureData\<close>: a row of the asset page. It shares field names with
  \<^verbatim>\<open>InstrumentData\<close>; from here on the unqualified names are those of \<^verbatim>\<open>FutureData\<close>.
\<close>

record FutureData =
  symbol :: string
  mark_price :: number
  last_price :: number
  timestamp :: number
  delivery_time :: "number optional"
  days_until_expiration :: "number optional"
  spread_percent :: "number optional"
  fair_futures_price :: "number optional"
  fair_spread_percent :: "number optional"
  funding_rate_until_expiration :: "number optional"
  funding_rate_365days_until_expiration :: "number optional"
  net_profit_current_fr :: "number optional"
  net_profit_365days_fr :: "number optional"
  net_profit_usdt :: "number optional"
  return_on_capital :: "number optional"
  net_profit_usdt_365days :: "number optional"
  return_on_capital_365days :: "number optional"
  average_fr_days_used :: "number optional"

section \<open>\<^verbatim>\<open>AssetPage.tsx\<close>\<close>

definition formatNumber :: "(real \<Rightarrow> string) \<Rightarrow> number optional \<Rightarrow> nat \<Rightarrow> string" where
  "formatNumber ts num decimals =
     (case num of
        Undefined \<Rightarrow> ''N/A''
      | Null \<Rightarrow> ''N/A''
      | Value n \<Rightarrow> toFixed ts n decimals)"

text \<open>The value is a decimal (0.0001 is 0.01%): it is multiplied by 100.\<close>

definition formatPercent ::
  "(real \<Rightarrow> string) \<Rightarrow> (real \<Rightarrow> number) \<Rightarrow> number optional \<Rightarrow> nat \<Rightarrow> string" where
  "formatPercent ts rnd num decimals =
     (case num of
        Undefined \<Rightarrow> ''N/A''
      | Null \<Rightarrow> ''N/A''
      | Value n \<Rightarrow>
          (let percentValue = num_mult rnd n (Finite 100)
           in (if num_ge percentValue (Finite 0) then [] else []) @
              toFixed ts percentValue decimals @ ''%''))"

text \<open>The value is already a percentage (3.89 is 3.89%): it is not multiplied.\<close>

definition formatPercentAlready :: "(real \<Rightarrow> string) \<Rightarrow> number optional \<Rightarrow> nat \<Rightarrow> string" where
  "formatPercentAlready ts num decimals =
     (case num of
        Undefined \<Rightarrow> ''N/A''
      | Null \<Rightarrow> ''N/A''
      | Value n \<Rightarrow>
          (if num_ge n (Finite 0) then [] else []) @ toFixed ts n decimals @ ''%'')"

datatype colour = Green | Red | Grey

definition getColor :: "number optional \<Rightarrow> colour" where
  "getColor v =
     (case v of
        Undefined \<Rightarrow> Grey
      | Null \<Rightarrow> Grey
      | Value n \<Rightarrow>
          (if num_less (Finite 0) n then Green
           else if num_less n (Finite 0) then Red else Grey))"

text \<open>
  \<^verbatim>\<open>shouldHighlight\<close>: four tests against \<^verbatim>\<open>undefined\<close>, then the three comparisons.
  Every operand of the \<^verbatim>\<open>&&\<close> chain is a boolean, so the double negation around it
  returns the conjunction.
\<close>

definition shouldHighlight :: "FutureData \<Rightarrow> bool" where
  "shouldHighlight future =
     (spread_percent future \<noteq> Undefined \<and>
      funding_rate_until_expiration future \<noteq> Undefined \<and>
      fair_spread_percent future \<noteq> Undefined \<and>
      net_profit_current_fr future \<noteq> Undefined \<and>
      js_lt (spread_percent future) (funding_rate_until_expiration future) \<and>
      js_lt (spread_percent future) (fair_spread_percent future) \<and>
      js_gt (net_profit_current_fr future) (Value (Finite 0)))"

text \<open>
  The cells of a table row that show derived metrics, as text and colour. The default
  \<^verbatim>\<open>decimals = 2\<close> of \<^verbatim>\<open>formatPercentAlready\<close> is written out.
\<close>

definition spread_cell :: "(real \<Rightarrow> string) \<Rightarrow> FutureData \<Rightarrow> string \<times> colour" where
  "spread_cell ts future =
     (formatPercentAlready ts (spread_percent future) 2, getColor (spread_percent future))"

definition fair_spread_cell :: "(real \<Rightarrow> string) \<Rightarrow> FutureData \<Rightarrow> string \<times> colour" where
  "fair_spread_cell ts future =
     (formatPercentAlready ts (fair_spread_percent future) 2,
      getColor (fair_spread_percent future))"

definition funding_cell :: "(real \<Rightarrow> string) \<Rightarrow> FutureData \<Rightarrow> string" where
  "funding_cell ts future = formatPercentAlready ts (funding_rate_until_expiration future) 2"

definition funding_365days_cell :: "(real \<Rightarrow> string) \<Rightarrow> FutureData \<Rightarrow> string" where
  "funding_365days_cell ts future =
     formatPercentAlready ts (funding_rate_365days_until_expiration future) 2"

text \<open>The percentage, then the USDT amount in brackets when it is not \<^verbatim>\<open>undefined\<close>.\<close>

definition profit_text :: "(real \<Rightarrow> string) \<Rightarrow> number optional \<Rightarrow> number optional \<Rightarrow> string" where
  "profit_text ts pct usdt =
     formatPercentAlready ts pct 2 @
     (if usdt \<noteq> Undefined then '' ($'' @ formatNumber ts usdt 2 @ '')'' else [])"

definition net_profit_cell :: "(real \<Rightarrow> string) \<Rightarrow> FutureData \<Rightarrow> string \<times> colour" where
  "net_profit_cell ts future =
     (profit_text ts (net_profit_current_fr future) (net_profit_usdt future),
      getColor (net_profit_current_fr future))"

definition net_profit_365days_cell :: "(real \<Rightarrow> string) \<Rightarrow> FutureData \<Rightarrow> string \<times> colour" where
  "net_profit_365days_cell ts future =
     (profit_text ts (net_profit_365days_fr future) (net_profit_usdt_365days future),
      getColor (net_profit_365days_fr future))"

definition roc_text :: "(real \<Rightarrow> string) \<Rightarrow> number optional \<Rightarrow> string" where
  "roc_text ts roc = (if roc \<noteq> Undefined then formatNumber ts roc 2 @ ''%'' else ''N/A'')"

definition return_on_capital_cell :: "(real \<Rightarrow> string) \<Rightarrow> FutureData \<Rightarrow> string \<times> colour" where
  "return_on_capital_cell ts future =
     (roc_text ts (return_on_capital future), getColor (return_on_capital future))"

definition return_on_capital_365days_cell ::
  "(real \<Rightarrow> string) \<Rightarrow> FutureData \<Rightarrow> string \<times> colour" where
  "return_on_capital_365days_cell ts future =
     (roc_text ts (return_on_capital_365days future),
      getColor (return_on_capital_365days future))"

text \<open>
  The cards of the funding rates of the perpetual, the current one and the totals over
  three months, six months and 365 days: decimals, shown by \<^verbatim>\<open>formatPercent\<close> with its
  default of four fraction digits.
\<close>

definition current_funding_rate_card ::
  "(real \<Rightarrow> string) \<Rightarrow> (real \<Rightarrow> number) \<Rightarrow> number optional \<Rightarrow> string" where
  "current_funding_rate_card ts rnd current_funding_rate =
     formatPercent ts rnd current_funding_rate 4"

definition total_funding_rate_3months_card ::
  "(real \<Rightarrow> string) \<Rightarrow> (real \<Rightarrow> number) \<Rightarrow> number optional \<Rightarrow> string" where
  "total_funding_rate_3months_card ts rnd total_funding_rate_3months =
     formatPercent ts rnd total_funding_rate_3months 4"

definition total_funding_rate_6months_card ::
  "(real \<Rightarrow> string) \<Rightarrow> (real \<Rightarrow> number) \<Rightarrow> number optional \<Rightarrow> string" where
  "total_funding_rate_6months_card ts rnd total_funding_rate_6months =
     formatPercent ts rnd total_funding_rate_6months 4"

definition total_funding_rate_365days_card ::
  "(real \<Rightarrow> string) \<Rightarrow> (real \<Rightarrow> number) \<Rightarrow> number optional \<Rightarrow> string" where
  "total_funding_rate_365days_card ts rnd total_funding_rate_365days =
     formatPercent ts rnd total_funding_rate_365days 4"

text \<open>The texts of the eight metric cells of a row, in the order of the columns.\<close>

definition metric_texts :: "(real \<Rightarrow> string) \<Rightarrow> FutureData \<Rightarrow> string list" where
  "metric_texts ts future =
     [fst (spread_cell ts future), fst (fair_spread_cell ts future),
      funding_cell ts future, funding_365days_cell ts future,
      fst (net_profit_cell ts future), fst (net_profit_365days_cell ts future),
      fst (return_on_capital_cell ts future), fst (return_on_capital_365days_cell ts future)]"

section \<open>\<^verbatim>\<open>Dashboard.tsx\<close>\<close>

definition Dashboard_formatNumber :: "(real \<Rightarrow> string) \<Rightarrow> number \<Rightarrow> nat \<Rightarrow> string" where
  "Dashboard_formatNumber ts num decimals = toFixed ts num decimals"

definition Dashboard_formatPercent :: "(real \<Rightarrow> string) \<Rightarrow> number \<Rightarrow> string" where
  "Dashboard_formatPercent ts num =
     (if num_ge num (Finite 0) then ''+'' else []) @ toFixed ts num 2 @ ''%''"

datatype chip_colour = Success | Warning | Error | Default

definition getSpreadColor :: "number \<Rightarrow> chip_colour" where
  "getSpreadColor spread =
     (if num_less spread (Finite (- 0.5)) then Error
      else if num_less spread (Finite 0) then Warning
      else Success)"

definition getROCColor :: "(real \<Rightarrow> number) \<Rightarrow> number \<Rightarrow> number \<Rightarrow> chip_colour" where
  "getROCColor rnd roc threshold =
     (if num_less threshold roc then Success
      else if num_less (num_mult rnd threshold (rnd 0.7)) roc then Warning
      else Default)"

datatype icon = TrendingUp | TrendingDown

text \<open>The chip of the spread column: label, colour and icon.\<close>

definition spread_chip :: "(real \<Rightarrow> string) \<Rightarrow> InstrumentData \<Rightarrow> string \<times> chip_colour \<times> icon" where
  "spread_chip ts instrument =
     (Dashboard_formatPercent ts (InstrumentData.spread_percent instrument),
      getSpreadColor (InstrumentData.spread_percent instrument),
      if num_ge (InstrumentData.spread_percent instrument) (Finite 0)
      then TrendingUp else TrendingDown)"

text \<open>The funding-rate columns: the decimal is multiplied by 100 at the call.\<close>

definition funding_rate_text ::
  "(real \<Rightarrow> string) \<Rightarrow> (real \<Rightarrow> number) \<Rightarrow> InstrumentData \<Rightarrow> string" where
  "funding_rate_text ts rnd instrument =
     Dashboard_formatPercent ts (num_mult rnd (funding_rate instrument) (Finite 100))"

definition avg_funding_rate_text ::
  "(real \<Rightarrow> string) \<Rightarrow> (real \<Rightarrow> number) \<Rightarrow> InstrumentData \<Rightarrow> string" where
  "avg_funding_rate_text ts rnd instrument =
     Dashboard_formatPercent ts (num_mult rnd (avg_funding_rate instrument) (Finite 100))"

section \<open>Example rows\<close>

text \<open>
  Two rows for a perpetual at 3000 and a future at 3015 with thirty days to expiry. The
  row of the asset page has a fair spread above its spread, so that it is highlighted.
\<close>

definition example_instrument :: InstrumentData where
  "example_instrument =
     \<lparr>InstrumentData.symbol = ''ETH'', perpetual_symbol = ''ETHUSDT'',
      futures_symbol = ''ETHUSDT-30D'', perpetual_price = Finite 3000,
      futures_price = Finite 3015, InstrumentData.spread_percent = Finite 0.5,
      funding_rate = Finite 0.0001, avg_funding_rate = Finite 0.0001,
      InstrumentData.days_until_expiration = Finite 30, net_profit_percent = Finite 0.284,
      InstrumentData.return_on_capital = Finite 3.455,
      InstrumentData.timestamp = ''2025-01-01T00:00:00''\<rparr>"

definition example_future :: FutureData where
  "example_future =
     \<lparr>symbol = ''ETHUSDT-30D'', mark_price = Finite 3015, last_price = Finite 3015,
      timestamp = Finite 1735689600, delivery_time = Value (Finite 1738281600),
      days_until_expiration = Value (Finite 30), spread_percent = Value (Finite 0.5),
      fair_futures_price = Undefined, fair_spread_percent = Value (Finite 0.6),
      funding_rate_until_expiration = Value (Finite 0.9),
      funding_rate_365days_until_expiration = Undefined,
      net_profit_current_fr = Value (Finite 0.284), net_profit_365days_fr = Undefined,
      net_profit_usdt = Value (Finite 28.4), return_on_capital = Value (Finite 3.455),
      net_profit_usdt_365days = Undefined, return_on_capital_365days = Undefined,
      average_fr_days_used = Undefined\<rparr>"

section \<open>The analytics engine, from its specification\<close>

text \<open>
  Modelled from the spec: the sign convention of the spread,
  \<^verbatim>\<open>(future_price - perpetual_price) / perpetual_price * 100\<close>; the engine that computes
  it is not among the sources.
\<close>

definition spread_pct :: "real \<Rightarrow> real \<Rightarrow> real" where
  "spread_pct future_mark perpetual_mark =
     (future_mark - perpetual_mark) / perpetual_mark * 100"

text \<open>
  Modelled from the spec: the fair price of the FairValueModel, which is not among the
  sources. The price of a dated future is the perpetual mark price \<open>P\<close> carried at the
  annual risk-free rate \<open>r\<close> over \<open>d\<close> days, without compounding.
\<close>

definition fair_price :: "real \<Rightarrow> real \<Rightarrow> real \<Rightarrow> real" where
  "fair_price P r d = P * (1 + r * d / 365)"

text \<open>
  Modelled from the spec: the fair spread of the FairValueModel,
  \<^verbatim>\<open>(fair_price - P) / P * 100\<close>; the division has no value at \<open>P = 0\<close>.
\<close>

definition fair_spread_pct :: "real \<Rightarrow> real \<Rightarrow> real \<Rightarrow> real option" where
  "fair_spread_pct P r d =
     (if P = 0 then None else Some ((fair_price P r d - P) / P * 100))"

text \<open>
  Modelled from the spec: the constants of the ProfitCalculator, which is not among the
  sources: three funding intervals a day, and a round-trip commission of four legs of
  0.0290% each, as the note under the table of the asset page also states.
\<close>

definition funding_intervals_per_day :: real where
  "funding_intervals_per_day = 3"

definition commission_per_leg :: real where
  "commission_per_leg = 0.0290"

definition commission :: real where
  "commission = 4 * commission_per_leg"

text \<open>
  Modelled from the spec: the funding projected over the days to expiration, from the
  average funding rate of a window, a decimal per funding interval that is missing
  when the window has no sample. The result is a percentage: the factor 100 is the one
  the scenario of the spec writes out (\<^verbatim>\<open>0.0001*3*30*100 = 0.9%\<close>), and the one the
  asset page relies on when it prints the field without rescaling.
\<close>

definition funding_until_expiration :: "real option \<Rightarrow> real \<Rightarrow> real option" where
  "funding_until_expiration fr d =
     map_option (\<lambda>rate. rate * funding_intervals_per_day * d * 100) fr"

text \<open>
  Modelled from the spec: the net profit in percent, the projected funding less the
  spread and the commission; missing when the projected funding is.
\<close>

definition net_profit :: "real option \<Rightarrow> real \<Rightarrow> real option" where
  "net_profit funding spread = map_option (\<lambda>fu. fu - spread - commission) funding"

text \<open>
  Modelled from the spec: the annualised return on capital, the net profit times
  \<open>365 / d\<close>; it has no value at \<open>d = 0\<close>.
\<close>

definition annualised_return :: "real option \<Rightarrow> real \<Rightarrow> real option" where
  "annualised_return profit d =
     (if d = 0 then None else map_option (\<lambda>p. p * (365 / d)) profit)"

text \<open>Modelled from the spec: the net profit in USDT on the capital.\<close>

definition profit_usdt :: "real option \<Rightarrow> real \<Rightarrow> real option" where
  "profit_usdt profit capital = map_option (\<lambda>p. p / 100 * capital) profit"

section \<open>\<^verbatim>\<open>Settings.tsx\<close>\<close>

text \<open>
  Strings are lists of 8-bit characters, read as the code units below 256. A field of
  the configuration object holds a number or, after an edit, possibly a string; the
  object itself is a map from its keys, which are strings.
\<close>

datatype config_value = Num number | Str string

type_synonym Config = "string \<rightharpoonup> config_value"

subsection \<open>\<^verbatim>\<open>parseFloat\<close>\<close>











subsection \<open>The component\<close>

text \<open>
  The texts of the messages that are not taken from the server are written in Russian
  in the source; they are named here.
\<close>

datatype message_text = Server_text string | Settings_saved | Saving_failed | Loading_failed

datatype severity = Severity_success | Severity_error

record Settings_state =
  config :: "Config option"
  loading :: bool
  saving :: bool
  message :: "(severity \<times> message_text) option"





section \<open>The configuration store, from its specification\<close>

text \<open>
  Modelled from the spec: the numeric ranges of the configuration update, which is not
  among the sources: \<^verbatim>\<open>leverage > 0\<close>, \<^verbatim>\<open>0 \<le> risk_free_rate\<close>, \<^verbatim>\<open>capital_usdt > 0\<close>. A
  value that is not a number is outside its range; the spec states no range for the
  other fields.
\<close>

definition in_range :: "string \<Rightarrow> config_value \<Rightarrow> bool" where
  "in_range field v =
     (if field = ''leverage'' then (case v of Num n \<Rightarrow> num_less (Finite 0) n | Str s \<Rightarrow> False)
      else if field = ''risk_free_rate''
        then (case v of Num n \<Rightarrow> num_ge n (Finite 0) | Str s \<Rightarrow> False)
      else if field = ''capital_usdt''
        then (case v of Num n \<Rightarrow> num_less (Finite 0) n | Str s \<Rightarrow> False)
      else True)"

text \<open>Modelled from the spec: the fields that have a range, in the order the spec names them.\<close>

definition checked_fields :: "string list" where
  "checked_fields = [''leverage'', ''risk_free_rate'', ''capital_usdt'']"

text \<open>Modelled from the spec: the fields of an update that are outside their range.\<close>

definition failing_fields :: "Config \<Rightarrow> string list" where
  "failing_fields upd =
     filter (\<lambda>field. case upd field of None \<Rightarrow> False | Some v \<Rightarrow> \<not> in_range field v)
       checked_fields"

text \<open>
  Modelled from the spec: the update. It takes a partial set of fields and validates
  before it applies: a rejected update reports the first field that failed and leaves
  the configuration as it was; an accepted one overrides the fields it gives.
\<close>

definition update_config :: "Config \<Rightarrow> Config \<Rightarrow> (string + unit) \<times> Config" where
  "update_config current upd =
     (case failing_fields upd of
        [] \<Rightarrow> (Inr (), current ++ upd)
      | field # others \<Rightarrow> (Inl field, current))"

text \<open>Modelled from the spec: the read of the current configuration.\<close>

definition get_config :: "Config \<Rightarrow> Config" where
  "get_config current = current"

text \<open>A configuration as the store hands it out, and the settings page holding it.\<close>

definition example_config :: Config where
  "example_config =
     [''spread_threshold_percent'' \<mapsto> Num (Finite 0.5),
      ''funding_rate_history_days'' \<mapsto> Num (Finite 30),
      ''monitoring_interval_seconds'' \<mapsto> Num (Finite 5),
      ''return_on_capital_threshold'' \<mapsto> Num (Finite 50),
      ''capital_usdt'' \<mapsto> Num (Finite 10000),
      ''leverage'' \<mapsto> Num (Finite 2),
      ''risk_free_rate'' \<mapsto> Num (Finite 0.05),
      ''perpetual_symbol'' \<mapsto> Str ''ETHUSDT'']"


section \<open>The WebSocket service of \<^verbatim>\<open>api.ts\<close>\<close>

text \<open>The values \<^verbatim>\<open>JSON.parse\<close> returns.\<close>

datatype json =
    JNull
  | JBool bool
  | JNumber real
  | JString string
  | JArray "json list"
  | JObject "(string \<times> json) list"

fun isArray :: "json \<Rightarrow> bool" where
  "isArray (JArray rows) = True"
| "isArray other = False"

text \<open>
  A call either returns or throws; in both cases it leaves a state behind.
\<close>

datatype 'a outcome = Returned 'a | Thrown 'a

datatype readyState = CONNECTING | OPEN | CLOSING | CLOSED

text \<open>
  The service object has the fields \<^verbatim>\<open>ws\<close>, \<^verbatim>\<open>reconnectTimeout\<close> and \<^verbatim>\<open>listeners\<close>.
  Sockets, timers and listener functions are objects of the browser: they are named by
  numbers, and the browser's side of them is part of the state. A socket keeps the
  end point its handlers were created for and its ready state; a pending timer keeps
  the end point its callback will connect to. \<^verbatim>\<open>listeners\<close> is a \<^verbatim>\<open>Set\<close>: a list without
  repetition, in the order of insertion. \<open>calls\<close> records every invocation of a
  listener with the value passed; \<open>world\<close> is whatever the listeners act on.
\<close>

record 'w system =
  ws :: "nat option"
  reconnectTimeout :: "nat option"
  listeners :: "nat list"
  sockets :: "nat \<rightharpoonup> string \<times> readyState"
  timers :: "nat \<rightharpoonup> string"
  next_handle :: nat
  calls :: "(nat \<times> json) list"
  world :: 'w

text \<open>Handles start at 1: a timer handle is truthy.\<close>

definition initial :: "'w \<Rightarrow> 'w system" where
  "initial w =
     \<lparr>ws = None, reconnectTimeout = None, listeners = [], sockets = Map.empty,
      timers = Map.empty, next_handle = 1, calls = [], world = w\<rparr>"

text \<open>
  \<^verbatim>\<open>connect\<close>: a new socket for the end point, stored in \<^verbatim>\<open>ws\<close>; the four handlers
  below are attached to it. A socket that \<^verbatim>\<open>ws\<close> held before is neither closed nor
  detached.
\<close>

definition connect :: "string \<Rightarrow> 'w system \<Rightarrow> 'w system" where
  "connect endpoint s =
     s\<lparr>ws := Some (next_handle s),
       sockets := (sockets s)(next_handle s \<mapsto> (endpoint, CONNECTING)),
       next_handle := next_handle s + 1\<rparr>"

text \<open>\<^verbatim>\<open>clearTimeout\<close> of the stored handle, if there is one.\<close>

definition clear_reconnect :: "'w system \<Rightarrow> 'w system" where
  "clear_reconnect s =
     (case reconnectTimeout s of
        None \<Rightarrow> s
      | Some t \<Rightarrow> s\<lparr>timers := (timers s)(t := None), reconnectTimeout := None\<rparr>)"

definition onopen :: "'w system \<Rightarrow> 'w system" where
  "onopen s = clear_reconnect s"

text \<open>
  \<^verbatim>\<open>listeners.forEach(listener => listener(data))\<close>, in the order of insertion; a
  listener that throws ends the iteration. \<open>call l\<close> is the function behind the
  listener \<open>l\<close>.
\<close>

fun forEach ::
  "(nat \<Rightarrow> json \<Rightarrow> 'w \<Rightarrow> 'w outcome) \<Rightarrow> nat list \<Rightarrow> json \<Rightarrow> (nat \<times> json) list \<times> 'w \<Rightarrow>
   ((nat \<times> json) list \<times> 'w) outcome" where
  "forEach call [] data (cs, w) = Returned (cs, w)"
| "forEach call (l # ls) data (cs, w) =
     (case call l data w of
        Thrown w' \<Rightarrow> Thrown (cs @ [(l, data)], w')
      | Returned w' \<Rightarrow> forEach call ls data (cs @ [(l, data)], w'))"

text \<open>
  The body of the \<^verbatim>\<open>try\<close> of \<^verbatim>\<open>onmessage\<close>: \<^verbatim>\<open>JSON.parse\<close> (the parameter \<open>parse\<close>,
  \<open>None\<close> for a syntax error) and the iteration over the listeners.
\<close>

definition onmessage_try ::
  "(nat \<Rightarrow> json \<Rightarrow> 'w \<Rightarrow> 'w outcome) \<Rightarrow> (string \<Rightarrow> json option) \<Rightarrow> string \<Rightarrow> 'w system \<Rightarrow>
   'w system outcome" where
  "onmessage_try call parse event_data s =
     (case parse event_data of
        None \<Rightarrow> Thrown s
      | Some data \<Rightarrow>
          (case forEach call (listeners s) data (calls s, world s) of
             Returned (cs, w) \<Rightarrow> Returned (s\<lparr>calls := cs, world := w\<rparr>)
           | Thrown (cs, w) \<Rightarrow> Thrown (s\<lparr>calls := cs, world := w\<rparr>)))"

text \<open>\<^verbatim>\<open>onmessage\<close>: the \<^verbatim>\<open>catch\<close> logs the error and returns.\<close>

definition onmessage ::
  "(nat \<Rightarrow> json \<Rightarrow> 'w \<Rightarrow> 'w outcome) \<Rightarrow> (string \<Rightarrow> json option) \<Rightarrow> string \<Rightarrow> 'w system \<Rightarrow>
   'w system outcome" where
  "onmessage call parse event_data s =
     (case onmessage_try call parse event_data s of
        Returned s' \<Rightarrow> Returned s'
      | Thrown s' \<Rightarrow> Returned s')"

definition onerror :: "'w system \<Rightarrow> 'w system" where
  "onerror s = s"

text \<open>
  \<^verbatim>\<open>onclose\<close>: a timer that will call \<^verbatim>\<open>connect(endpoint)\<close>; its handle replaces
  the stored one.
\<close>

definition onclose :: "string \<Rightarrow> 'w system \<Rightarrow> 'w system" where
  "onclose endpoint s =
     s\<lparr>reconnectTimeout := Some (next_handle s),
       timers := (timers s)(next_handle s \<mapsto> endpoint),
       next_handle := next_handle s + 1\<rparr>"

text \<open>
  \<^verbatim>\<open>WebSocket.close()\<close>: a socket that is connecting or open starts closing; the
  browser fires its \<^verbatim>\<open>close\<close> event once the connection is closed.
\<close>

definition close :: "nat \<Rightarrow> (nat \<rightharpoonup> string \<times> readyState) \<Rightarrow> (nat \<rightharpoonup> string \<times> readyState)" where
  "close sock socks =
     (case socks sock of
        None \<Rightarrow> socks
      | Some (endpoint, st) \<Rightarrow>
          if st = CLOSING \<or> st = CLOSED then socks else socks(sock \<mapsto> (endpoint, CLOSING)))"

definition disconnect :: "'w system \<Rightarrow> 'w system" where
  "disconnect s =
     (let s1 = clear_reconnect s
      in case ws s1 of
           None \<Rightarrow> s1
         | Some sock \<Rightarrow> s1\<lparr>sockets := close sock (sockets s1), ws := None\<rparr>)"

text \<open>
  \<^verbatim>\<open>subscribe\<close> adds the listener to the set and returns a closure; calling the
  closure is \<open>unsubscribe\<close>.
\<close>

definition subscribe :: "nat \<Rightarrow> 'w system \<Rightarrow> 'w system" where
  "subscribe l s =
     s\<lparr>listeners := (if l \<in> set (listeners s) then listeners s else listeners s @ [l])\<rparr>"

definition unsubscribe :: "nat \<Rightarrow> 'w system \<Rightarrow> 'w system" where
  "unsubscribe l s = s\<lparr>listeners := removeAll l (listeners s)\<rparr>"

subsection \<open>The browser\<close>

text \<open>
  The events the browser delivers: a connecting socket opens; an open socket receives
  a message; a socket reports an error; a socket that is not yet closed closes, also
  after \<^verbatim>\<open>close()\<close>; a pending timer expires. An event that cannot occur in a state
  gives \<open>None\<close>.
\<close>

datatype event = Open nat | Message nat string | Failure nat | Close nat | Timeout nat

definition fire ::
  "(nat \<Rightarrow> json \<Rightarrow> 'w \<Rightarrow> 'w outcome) \<Rightarrow> (string \<Rightarrow> json option) \<Rightarrow> event \<Rightarrow> 'w system \<Rightarrow>
   'w system option" where
  "fire call parse e s =
     (case e of
        Open sock \<Rightarrow>
          (case sockets s sock of
             Some (endpoint, CONNECTING) \<Rightarrow>
               Some (onopen (s\<lparr>sockets := (sockets s)(sock \<mapsto> (endpoint, OPEN))\<rparr>))
           | _ \<Rightarrow> None)
      | Message sock event_data \<Rightarrow>
          (case sockets s sock of
             Some (endpoint, OPEN) \<Rightarrow>
               (case onmessage call parse event_data s of
                  Returned s' \<Rightarrow> Some s'
                | Thrown s' \<Rightarrow> Some s')
           | _ \<Rightarrow> None)
      | Failure sock \<Rightarrow>
          (case sockets s sock of
             Some (endpoint, st) \<Rightarrow> Some (onerror s)
           | None \<Rightarrow> None)
      | Close sock \<Rightarrow>
          (case sockets s sock of
             Some (endpoint, st) \<Rightarrow>
               if st = CLOSED then None
               else Some (onclose endpoint (s\<lparr>sockets := (sockets s)(sock \<mapsto> (endpoint, CLOSED))\<rparr>))
           | None \<Rightarrow> None)
      | Timeout t \<Rightarrow>
          (case timers s t of
             Some endpoint \<Rightarrow> Some (connect endpoint (s\<lparr>timers := (timers s)(t := None)\<rparr>))
           | None \<Rightarrow> None))"

text \<open>What happens to the service: calls of its methods and events of the browser.\<close>

datatype action = Connect string | Disconnect | Subscribe nat | Unsubscribe nat | Fire event

definition step ::
  "(nat \<Rightarrow> json \<Rightarrow> 'w \<Rightarrow> 'w outcome) \<Rightarrow> (string \<Rightarrow> json option) \<Rightarrow> action \<Rightarrow> 'w system \<Rightarrow>
   'w system option" where
  "step call parse a s =
     (case a of
        Connect endpoint \<Rightarrow> Some (connect endpoint s)
      | Disconnect \<Rightarrow> Some (disconnect s)
      | Subscribe l \<Rightarrow> Some (subscribe l s)
      | Unsubscribe l \<Rightarrow> Some (unsubscribe l s)
      | Fire e \<Rightarrow> fire call parse e s)"

fun run ::
  "(nat \<Rightarrow> json \<Rightarrow> 'w \<Rightarrow> 'w outcome) \<Rightarrow> (string \<Rightarrow> json option) \<Rightarrow> action list \<Rightarrow> 'w system \<Rightarrow>
   'w system option" where
  "run call parse [] s = Some s"
| "run call parse (a # as) s =
     (case step call parse a s of
        None \<Rightarrow> None
      | Some s' \<Rightarrow> run call parse as s')"

section \<open>The subscription of \<^verbatim>\<open>Dashboard.tsx\<close>\<close>

text \<open>
  The state of the component. The two error texts are written in Russian in the source
  and are named here; \<^verbatim>\<open>lastUpdate\<close> is a date, kept as a time stamp.
\<close>

datatype dashboard_error = Load_failed | Bad_data

record Dashboard_state =
  instruments :: "json list"
  loading :: bool
  error :: "dashboard_error option"
  lastUpdate :: "nat option"

text \<open>
  The listener the component subscribes: an array replaces the instruments, sets the
  date and clears the error; anything else is logged and changes nothing. \<open>now\<close> is
  the date at the call.
\<close>

definition Dashboard_listener :: "nat \<Rightarrow> json \<Rightarrow> Dashboard_state \<Rightarrow> Dashboard_state" where
  "Dashboard_listener now data st =
     (case data of
        JArray rows \<Rightarrow> st\<lparr>instruments := rows, lastUpdate := Some now, error := None\<rparr>
      | _ \<Rightarrow> st)"

text \<open>
  Every listener in the set belongs to one mounted dashboard: the world maps a
  listener to the state of its component, and calling it never throws.
\<close>

definition Dashboard_call ::
  "nat \<Rightarrow> nat \<Rightarrow> json \<Rightarrow> (nat \<Rightarrow> Dashboard_state) \<Rightarrow> (nat \<Rightarrow> Dashboard_state) outcome" where
  "Dashboard_call now l data w = Returned (w(l := Dashboard_listener now data (w l)))"

text \<open>A dashboard that has loaded nothing yet, and a parser that knows two messages.\<close>

definition empty_dashboard :: Dashboard_state where
  "empty_dashboard = \<lparr>instruments = [], loading = True, error = None, lastUpdate = None\<rparr>"

definition example_parse :: "string \<Rightarrow> json option" where
  "example_parse msg =
     (if msg = ''[]'' then Some (JArray [])
      else if msg = ''[null]'' then Some (JArray [JNull])
      else if msg = ''{}'' then Some (JObject [])
      else None)"

text \<open>
  A service with one open socket and the listeners of two dashboards, as it is after
  \<^verbatim>\<open>connect\<close>, the \<^verbatim>\<open>open\<close> event and two subscriptions.
\<close>

definition example_system :: "(nat \<Rightarrow> Dashboard_state) system" where
  "example_system =
     \<lparr>ws = Some 1, reconnectTimeout = None, listeners = [7, 9],
      sockets = [1 \<mapsto> (''/ws/instruments'', OPEN)], timers = Map.empty, next_handle = 2,
      calls = [], world = (\<lambda>l. empty_dashboard)\<rparr>"

section \<open>The highlight flag\<close>

lemma num_less_irrefl: "\<not> num_less x x"
  by (cases x) simp_all

lemma num_less_NaN_right [simp]: "num_less x NaN = False"
  by (cases x) simp_all

text \<open>
  C1. The flag is true exactly when the three strict comparisons hold. For finite
  values these are the comparisons of the reals; a row whose two compared values are
  equal is not highlighted, and neither is a row with one of the four fields undefined.
\<close>

theorem shouldHighlight_iff:
  "(shouldHighlight f \<longleftrightarrow>
      js_lt (spread_percent f) (funding_rate_until_expiration f) \<and>
      js_lt (spread_percent f) (fair_spread_percent f) \<and>
      js_gt (net_profit_current_fr f) (Value (Finite 0))) \<and>
   (shouldHighlight (f\<lparr>spread_percent := Value (Finite s),
        funding_rate_until_expiration := Value (Finite r),
        fair_spread_percent := Value (Finite a),
        net_profit_current_fr := Value (Finite n)\<rparr>) \<longleftrightarrow> s < r \<and> s < a \<and> 0 < n) \<and>
   \<not> shouldHighlight (f\<lparr>spread_percent := x, funding_rate_until_expiration := x\<rparr>) \<and>
   \<not> shouldHighlight (f\<lparr>spread_percent := x, fair_spread_percent := x\<rparr>) \<and>
   \<not> shouldHighlight (f\<lparr>net_profit_current_fr := Value (Finite 0)\<rparr>) \<and>
   \<not> shouldHighlight (f\<lparr>spread_percent := Undefined\<rparr>) \<and>
   \<not> shouldHighlight (f\<lparr>funding_rate_until_expiration := Undefined\<rparr>) \<and>
   \<not> shouldHighlight (f\<lparr>fair_spread_percent := Undefined\<rparr>) \<and>
   \<not> shouldHighlight (f\<lparr>net_profit_current_fr := Undefined\<rparr>)"
proof -
  have general: "shouldHighlight g \<longleftrightarrow>
      js_lt (spread_percent g) (funding_rate_until_expiration g) \<and>
      js_lt (spread_percent g) (fair_spread_percent g) \<and>
      js_gt (net_profit_current_fr g) (Value (Finite 0))" for g
    unfolding shouldHighlight_def js_gt_def js_lt_def
    by (cases "spread_percent g"; cases "funding_rate_until_expiration g";
        cases "fair_spread_percent g"; cases "net_profit_current_fr g"; simp)
  show ?thesis
    unfolding general by (simp add: js_lt_def js_gt_def num_less_irrefl)
qed

theorem shouldHighlight_iff_witness:
  "shouldHighlight example_future \<and>
   \<not> shouldHighlight (example_future\<lparr>spread_percent := Value (Finite 0.9),
       funding_rate_until_expiration := Value (Finite 0.9)\<rparr>) \<and>
   \<not> shouldHighlight (example_future\<lparr>fair_spread_percent := Undefined\<rparr>)"
  using shouldHighlight_iff [where f = example_future and s = "0.5" and r = "0.9"
      and a = "0.6" and n = "0.284" and x = "Value (Finite 0.9)"]
  by (simp add: example_future_def js_lt_def js_gt_def)

section \<open>Missing metrics on the asset page\<close>

lemmas render_defs = formatNumber_def formatPercent_def formatPercentAlready_def roc_text_def
  profit_text_def toFixed_def fixed_digits_def decimal.simps digit_char_def num_ge_def
  Dashboard_formatPercent_def

lemmas cell_defs = spread_cell_def fair_spread_cell_def funding_cell_def
  funding_365days_cell_def net_profit_cell_def net_profit_365days_cell_def
  return_on_capital_cell_def return_on_capital_365days_cell_def

lemma replicate_8: "replicate 8 x = [x, x, x, x, x, x, x, x]"
  by (simp add: numeral_eq_Suc)

lemma not_NA_percent: "s @ ''%'' \<noteq> ''N/A''"
proof
  assume "s @ ''%'' = ''N/A''"
  then have "last (s @ ''%'') = last ''N/A''" by simp
  then show False by simp
qed

lemma not_NA_bracket: "s @ '')'' \<noteq> ''N/A''"
proof
  assume "s @ '')'' = ''N/A''"
  then have "last (s @ '')'') = last ''N/A''" by simp
  then show False by simp
qed

lemma formatPercentAlready_Value:
  "formatPercentAlready ts (Value v) d = toFixed ts v d @ ''%''"
  by (simp add: formatPercentAlready_def)

lemma profit_text_not_NA: "profit_text ts (Value v) u \<noteq> ''N/A''"
proof (cases "u = Undefined")
  case True
  then show ?thesis
    by (simp add: profit_text_def formatPercentAlready_Value not_NA_percent)
next
  case False
  have "profit_text ts (Value v) u =
      (toFixed ts v 2 @ ''%'' @ '' ($'' @ formatNumber ts u 2) @ '')''"
    using False by (simp add: profit_text_def formatPercentAlready_Value)
  then show ?thesis
    using not_NA_bracket by metis
qed

text \<open>
  What holds of the claim. In every row, a metric field that is \<^verbatim>\<open>undefined\<close> is shown
  as \<^verbatim>\<open>N/A\<close> in its cell (a net-profit cell when its USDT amount is \<^verbatim>\<open>undefined\<close> as
  well), with the colour grey where the cell has one.
\<close>

lemma undefined_metric_shown_NA:
  "spread_cell ts (f\<lparr>spread_percent := Undefined\<rparr>) = (''N/A'', Grey)"
  "fair_spread_cell ts (f\<lparr>fair_spread_percent := Undefined\<rparr>) = (''N/A'', Grey)"
  "funding_cell ts (f\<lparr>funding_rate_until_expiration := Undefined\<rparr>) = ''N/A''"
  "funding_365days_cell ts (f\<lparr>funding_rate_365days_until_expiration := Undefined\<rparr>) = ''N/A''"
  "net_profit_cell ts (f\<lparr>net_profit_current_fr := Undefined, net_profit_usdt := Undefined\<rparr>) =
     (''N/A'', Grey)"
  "net_profit_365days_cell ts
     (f\<lparr>net_profit_365days_fr := Undefined, net_profit_usdt_365days := Undefined\<rparr>) =
     (''N/A'', Grey)"
  "return_on_capital_cell ts (f\<lparr>return_on_capital := Undefined\<rparr>) = (''N/A'', Grey)"
  "return_on_capital_365days_cell ts (f\<lparr>return_on_capital_365days := Undefined\<rparr>) =
     (''N/A'', Grey)"
  by (simp_all add: cell_defs formatPercentAlready_def profit_text_def roc_text_def getColor_def)

text \<open>A field that holds a number, whichever it is, is never shown as \<^verbatim>\<open>N/A\<close>.\<close>

lemma number_never_shown_NA:
  "fst (spread_cell ts (f\<lparr>spread_percent := Value v\<rparr>)) \<noteq> ''N/A''"
  "fst (fair_spread_cell ts (f\<lparr>fair_spread_percent := Value v\<rparr>)) \<noteq> ''N/A''"
  "funding_cell ts (f\<lparr>funding_rate_until_expiration := Value v\<rparr>) \<noteq> ''N/A''"
  "funding_365days_cell ts (f\<lparr>funding_rate_365days_until_expiration := Value v\<rparr>) \<noteq> ''N/A''"
  "fst (net_profit_cell ts (f\<lparr>net_profit_current_fr := Value v\<rparr>)) \<noteq> ''N/A''"
  "fst (net_profit_365days_cell ts (f\<lparr>net_profit_365days_fr := Value v\<rparr>)) \<noteq> ''N/A''"
  "fst (return_on_capital_cell ts (f\<lparr>return_on_capital := Value v\<rparr>)) \<noteq> ''N/A''"
  "fst (return_on_capital_365days_cell ts (f\<lparr>return_on_capital_365days := Value v\<rparr>)) \<noteq> ''N/A''"
  by (simp_all add: cell_defs formatPercentAlready_Value not_NA_percent profit_text_not_NA
      roc_text_def)

text \<open>The number zero is shown as such, and a row without any metric shows eight times \<^verbatim>\<open>N/A\<close>.\<close>

lemma zero_shown_as_zero:
  "formatPercentAlready ts (Value (Finite 0)) 2 = ''0.00%''"
  "roc_text ts (Value (Finite 0)) = ''0.00%''"
  "profit_text ts (Value (Finite 0)) (Value (Finite 0)) = ''0.00% ($0.00)''"
  by (simp_all add: render_defs)

lemma all_metrics_undefined:
  "metric_texts ts (f\<lparr>spread_percent := Undefined, fair_spread_percent := Undefined,
       funding_rate_until_expiration := Undefined,
       funding_rate_365days_until_expiration := Undefined,
       net_profit_current_fr := Undefined, net_profit_365days_fr := Undefined,
       net_profit_usdt := Undefined, return_on_capital := Undefined,
       net_profit_usdt_365days := Undefined, return_on_capital_365days := Undefined\<rparr>) =
     replicate 8 ''N/A''"
  by (simp add: render_defs metric_texts_def cell_defs replicate_8)

text \<open>
  C2. The claim fails where the missing value arrives as \<^verbatim>\<open>null\<close>, the value a JSON
  payload carries for a metric without a value and the one \<^verbatim>\<open>formatNumber\<close>,
  \<^verbatim>\<open>formatPercentAlready\<close> and \<^verbatim>\<open>getColor\<close> all test for. The two return-on-capital cells
  test against \<^verbatim>\<open>undefined\<close> only: a \<^verbatim>\<open>null\<close> passes the test, \<^verbatim>\<open>formatNumber\<close>
  answers \<^verbatim>\<open>N/A\<close>, and the cell appends the percent sign to it. The net-profit cells
  test the USDT amount in the same way and show \<^verbatim>\<open>N/A ($N/A)\<close>. The spread cell, which
  goes through \<^verbatim>\<open>formatPercentAlready\<close> alone, shows \<^verbatim>\<open>N/A\<close>.
\<close>

theorem null_return_on_capital_shown_with_percent_sign:
  "return_on_capital_cell ts (f\<lparr>return_on_capital := Null\<rparr>) = (''N/A%'', Grey) \<and>
   return_on_capital_365days_cell ts (f\<lparr>return_on_capital_365days := Null\<rparr>) =
     (''N/A%'', Grey) \<and>
   net_profit_cell ts (f\<lparr>net_profit_current_fr := Null, net_profit_usdt := Null\<rparr>) =
     (''N/A ($N/A)'', Grey) \<and>
   net_profit_365days_cell ts
     (f\<lparr>net_profit_365days_fr := Null, net_profit_usdt_365days := Null\<rparr>) =
     (''N/A ($N/A)'', Grey) \<and>
   spread_cell ts (f\<lparr>spread_percent := Null\<rparr>) = (''N/A'', Grey) \<and>
   formatNumber ts Null 2 = ''N/A'' \<and>
   formatPercentAlready ts Null 2 = ''N/A''"
  by (simp add: cell_defs roc_text_def profit_text_def formatNumber_def
      formatPercentAlready_def getColor_def)

section \<open>The spread is shown as it is received\<close>

lemma Dashboard_formatPercent_Finite:
  "Dashboard_formatPercent ts (Finite y) =
     (if 0 \<le> y then ''+'' else []) @ toFixed ts (Finite y) 2 @ ''%''"
  by (simp add: Dashboard_formatPercent_def num_ge_def not_less)

lemma formatPercent_Finite:
  "formatPercent ts rnd (Value (Finite r)) d = toFixed ts (rnd (r * 100)) d @ ''%''"
  by (simp add: formatPercent_def)

text \<open>
  A finite value between 0.0099999 and 0.0100001 is printed as \<^verbatim>\<open>0.01\<close> with two
  fraction digits and as \<^verbatim>\<open>0.0100\<close> with four.
\<close>

lemma toFixed_near_one_hundredth:
  assumes "0.0099999 \<le> y" "y \<le> 0.0100001"
  shows "toFixed ts (Finite y) 2 = ''0.01''" and "toFixed ts (Finite y) 4 = ''0.0100''"
proof -
  from assms have pos: "\<not> y < 0" "\<bar>y\<bar> = y" "\<not> 10 ^ 21 \<le> y"
    by simp_all
  from assms have "1 \<le> y * 10 ^ 2 + 1 / 2" "y * 10 ^ 2 + 1 / 2 < 1 + 1"
    by simp_all
  then have f2: "\<lfloor>y * 10 ^ 2 + 1 / 2\<rfloor> = 1"
    by (intro floor_unique) simp_all
  from assms have "100 \<le> y * 10 ^ 4 + 1 / 2" "y * 10 ^ 4 + 1 / 2 < 100 + 1"
    by simp_all
  then have f4: "\<lfloor>y * 10 ^ 4 + 1 / 2\<rfloor> = 100"
    by (intro floor_unique) simp_all
  have d1: "decimal (nat 1) = ''1''" and d100: "decimal (nat 100) = ''100''"
    by (simp_all add: decimal.simps digit_char_def)
  show "toFixed ts (Finite y) 2 = ''0.01''"
    unfolding toFixed_def fixed_digits_def number.case pos f2 Let_def d1
    using assms by simp
  show "toFixed ts (Finite y) 4 = ''0.0100''"
    unfolding toFixed_def fixed_digits_def number.case pos f4 Let_def d100
    using assms by simp
qed

lemma toFixed_tie: "toFixed ts (Finite 0.375) 2 = ''0.38''"
  by (simp add: toFixed_def fixed_digits_def decimal.simps digit_char_def)

lemma spread_pct_sign:
  "0 < P \<Longrightarrow> (spread_pct F P < 0 \<longleftrightarrow> F < P) \<and> (0 < spread_pct F P \<longleftrightarrow> P < F)"
  by (simp add: spread_pct_def zero_less_divide_iff divide_less_0_iff)

text \<open>
  The claim as stated fails for the two projected funding fields: they are percentages
  and go through \<^verbatim>\<open>formatPercentAlready\<close>, as the spread does. The value 0.75 is shown
  as \<^verbatim>\<open>0.75%\<close>; multiplied by 100, as \<^verbatim>\<open>formatPercent\<close> would, it would read
  \<^verbatim>\<open>75.00%\<close> (75 is a binary64 value, so the product is exact here).
\<close>

theorem projected_funding_shown_unscaled:
  "funding_cell (\<lambda>x. [])
     (example_future\<lparr>funding_rate_until_expiration := Value (Finite 0.75)\<rparr>) = ''0.75%'' \<and>
   funding_365days_cell (\<lambda>x. [])
     (example_future\<lparr>funding_rate_365days_until_expiration := Value (Finite 0.75)\<rparr>) =
     ''0.75%'' \<and>
   formatPercent (\<lambda>x. []) Finite (Value (Finite 0.75)) 2 = ''75.00%''"
  by (simp add: funding_cell_def funding_365days_cell_def render_defs)

text \<open>
  C4, amended. Both pages print the spread they receive with two fraction digits and no
  rescaling (the dashboard puts a plus sign before a value that is not negative), and
  read it as a percentage: the colour of the chip changes at -0.5 and at 0, the icon and
  the colour of the cell at 0. The two projected funding fields are printed in the
  same way. The funding rates per interval (\<^verbatim>\<open>funding_rate\<close>, \<^verbatim>\<open>avg_funding_rate\<close>, the
  current rate and the three totals of the perpetual) are decimals: what is printed is
  their product with 100, rounded to binary64 as the multiplication does. Under the
  convention \<open>(future - perpetual) / perpetual * 100\<close> with a positive perpetual price,
  the icon and the colours follow the order of the two prices. At the prices 3015 and
  3000 the pages show \<^verbatim>\<open>+0.50%\<close> and \<^verbatim>\<open>0.50%\<close>; a rate whose product with 100 is
  0.01, up to the seventh digit, is shown as \<^verbatim>\<open>+0.01%\<close> and \<^verbatim>\<open>0.0100%\<close>, and one whose
  product is rounded to 0.375 as \<^verbatim>\<open>+0.38%\<close>.
\<close>

theorem spread_percent_shown_unscaled:
  "spread_chip ts (i\<lparr>InstrumentData.spread_percent := Finite s\<rparr>) =
     ((if 0 \<le> s then ''+'' else []) @ toFixed ts (Finite s) 2 @ ''%'',
      (if s < - 0.5 then Error else if s < 0 then Warning else Success),
      (if 0 \<le> s then TrendingUp else TrendingDown)) \<and>
   spread_cell ts (f\<lparr>spread_percent := Value (Finite s)\<rparr>) =
     (toFixed ts (Finite s) 2 @ ''%'', if 0 < s then Green else if s < 0 then Red else Grey) \<and>
   funding_cell ts (f\<lparr>funding_rate_until_expiration := Value (Finite q)\<rparr>) =
     toFixed ts (Finite q) 2 @ ''%'' \<and>
   funding_365days_cell ts (f\<lparr>funding_rate_365days_until_expiration := Value (Finite q)\<rparr>) =
     toFixed ts (Finite q) 2 @ ''%'' \<and>
   funding_rate_text ts rnd (i\<lparr>funding_rate := Finite r\<rparr>) =
     Dashboard_formatPercent ts (rnd (r * 100)) \<and>
   avg_funding_rate_text ts rnd (i\<lparr>avg_funding_rate := Finite r\<rparr>) =
     Dashboard_formatPercent ts (rnd (r * 100)) \<and>
   current_funding_rate_card ts rnd (Value (Finite r)) = toFixed ts (rnd (r * 100)) 4 @ ''%'' \<and>
   total_funding_rate_3months_card ts rnd (Value (Finite r)) =
     toFixed ts (rnd (r * 100)) 4 @ ''%'' \<and>
   total_funding_rate_6months_card ts rnd (Value (Finite r)) =
     toFixed ts (rnd (r * 100)) 4 @ ''%'' \<and>
   total_funding_rate_365days_card ts rnd (Value (Finite r)) =
     toFixed ts (rnd (r * 100)) 4 @ ''%'' \<and>
   (rnd (r * 100) = Finite y \<longrightarrow>
      funding_rate_text ts rnd (i\<lparr>funding_rate := Finite r\<rparr>) =
        (if 0 \<le> y then ''+'' else []) @ toFixed ts (Finite y) 2 @ ''%'') \<and>
   (0 < P \<longrightarrow>
      (snd (snd (spread_chip ts (i\<lparr>InstrumentData.spread_percent := Finite (spread_pct F P)\<rparr>)))
         = TrendingUp \<longleftrightarrow> P \<le> F) \<and>
      (snd (spread_cell ts (f\<lparr>spread_percent := Value (Finite (spread_pct F P))\<rparr>)) = Green
         \<longleftrightarrow> P < F) \<and>
      (snd (spread_cell ts (f\<lparr>spread_percent := Value (Finite (spread_pct F P))\<rparr>)) = Red
         \<longleftrightarrow> F < P)) \<and>
   spread_chip ts (i\<lparr>InstrumentData.spread_percent := Finite (spread_pct 3015 3000)\<rparr>) =
     (''+0.50%'', Success, TrendingUp) \<and>
   spread_cell ts (f\<lparr>spread_percent := Value (Finite (spread_pct 3015 3000))\<rparr>) =
     (''0.50%'', Green) \<and>
   (rnd (r * 100) = Finite y \<and> 0.0099999 \<le> y \<and> y \<le> 0.0100001 \<longrightarrow>
      funding_rate_text ts rnd (i\<lparr>funding_rate := Finite r\<rparr>) = ''+0.01%'' \<and>
      current_funding_rate_card ts rnd (Value (Finite r)) = ''0.0100%'') \<and>
   (rnd (r * 100) = Finite 0.375 \<longrightarrow>
      funding_rate_text ts rnd (i\<lparr>funding_rate := Finite r\<rparr>) = ''+0.38%'')"
proof -
  have chip: "spread_chip ts (i\<lparr>InstrumentData.spread_percent := Finite x\<rparr>) =
     ((if 0 \<le> x then ''+'' else []) @ toFixed ts (Finite x) 2 @ ''%'',
      (if x < - 0.5 then Error else if x < 0 then Warning else Success),
      (if 0 \<le> x then TrendingUp else TrendingDown))" for x
    by (simp add: spread_chip_def Dashboard_formatPercent_Finite getSpreadColor_def num_ge_def
        not_less)
  have cell: "spread_cell ts (f\<lparr>spread_percent := Value (Finite x)\<rparr>) =
     (toFixed ts (Finite x) 2 @ ''%'', if 0 < x then Green else if x < 0 then Red else Grey)"
    for x
    by (simp add: spread_cell_def formatPercentAlready_Value getColor_def)
  have projected:
    "funding_cell ts (f\<lparr>funding_rate_until_expiration := Value (Finite q)\<rparr>) =
       toFixed ts (Finite q) 2 @ ''%''"
    "funding_365days_cell ts (f\<lparr>funding_rate_365days_until_expiration := Value (Finite q)\<rparr>) =
       toFixed ts (Finite q) 2 @ ''%''"
    by (simp_all add: funding_cell_def funding_365days_cell_def formatPercentAlready_Value)
  have rates:
    "funding_rate_text ts rnd (i\<lparr>funding_rate := Finite r\<rparr>) =
       Dashboard_formatPercent ts (rnd (r * 100))"
    "avg_funding_rate_text ts rnd (i\<lparr>avg_funding_rate := Finite r\<rparr>) =
       Dashboard_formatPercent ts (rnd (r * 100))"
    by (simp_all add: funding_rate_text_def avg_funding_rate_text_def)
  have cards:
    "current_funding_rate_card ts rnd (Value (Finite r)) = toFixed ts (rnd (r * 100)) 4 @ ''%''"
    "total_funding_rate_3months_card ts rnd (Value (Finite r)) =
       toFixed ts (rnd (r * 100)) 4 @ ''%''"
    "total_funding_rate_6months_card ts rnd (Value (Finite r)) =
       toFixed ts (rnd (r * 100)) 4 @ ''%''"
    "total_funding_rate_365days_card ts rnd (Value (Finite r)) =
       toFixed ts (rnd (r * 100)) 4 @ ''%''"
    by (simp_all add: current_funding_rate_card_def total_funding_rate_3months_card_def
        total_funding_rate_6months_card_def total_funding_rate_365days_card_def
        formatPercent_Finite)
  have rounded: "rnd (r * 100) = Finite y \<longrightarrow>
      funding_rate_text ts rnd (i\<lparr>funding_rate := Finite r\<rparr>) =
        (if 0 \<le> y then ''+'' else []) @ toFixed ts (Finite y) 2 @ ''%''"
    by (simp add: rates Dashboard_formatPercent_Finite)
  have convention: "0 < P \<longrightarrow>
      (snd (snd (spread_chip ts (i\<lparr>InstrumentData.spread_percent := Finite (spread_pct F P)\<rparr>)))
         = TrendingUp \<longleftrightarrow> P \<le> F) \<and>
      (snd (spread_cell ts (f\<lparr>spread_percent := Value (Finite (spread_pct F P))\<rparr>)) = Green
         \<longleftrightarrow> P < F) \<and>
      (snd (spread_cell ts (f\<lparr>spread_percent := Value (Finite (spread_pct F P))\<rparr>)) = Red
         \<longleftrightarrow> F < P)"
  proof
    assume "0 < P"
    define x where "x = spread_pct F P"
    have neg: "x < 0 \<longleftrightarrow> F < P" and pos: "0 < x \<longleftrightarrow> P < F"
      using spread_pct_sign [OF \<open>0 < P\<close>] by (simp_all add: x_def)
    have "(snd (snd (spread_chip ts (i\<lparr>InstrumentData.spread_percent := Finite x\<rparr>)))
         = TrendingUp \<longleftrightarrow> \<not> x < 0) \<and>
      (snd (spread_cell ts (f\<lparr>spread_percent := Value (Finite x)\<rparr>)) = Green
         \<longleftrightarrow> 0 < x) \<and>
      (snd (spread_cell ts (f\<lparr>spread_percent := Value (Finite x)\<rparr>)) = Red
         \<longleftrightarrow> x < 0)"
      unfolding chip cell by (simp add: not_less)
    then show "(snd (snd (spread_chip ts (i\<lparr>InstrumentData.spread_percent := Finite (spread_pct F P)\<rparr>)))
         = TrendingUp \<longleftrightarrow> P \<le> F) \<and>
      (snd (spread_cell ts (f\<lparr>spread_percent := Value (Finite (spread_pct F P))\<rparr>)) = Green
         \<longleftrightarrow> P < F) \<and>
      (snd (spread_cell ts (f\<lparr>spread_percent := Value (Finite (spread_pct F P))\<rparr>)) = Red
         \<longleftrightarrow> F < P)"
      unfolding x_def [symmetric] neg pos by (simp add: not_less)
  qed
  have half: "spread_pct 3015 3000 = 0.5"
    by (simp add: spread_pct_def)
  have examples:
    "spread_chip ts (i\<lparr>InstrumentData.spread_percent := Finite (spread_pct 3015 3000)\<rparr>) =
       (''+0.50%'', Success, TrendingUp)"
    "spread_cell ts (f\<lparr>spread_percent := Value (Finite (spread_pct 3015 3000))\<rparr>) =
       (''0.50%'', Green)"
    unfolding chip cell half
    by (simp_all add: toFixed_def fixed_digits_def decimal.simps digit_char_def)
  have near: "rnd (r * 100) = Finite y \<and> 0.0099999 \<le> y \<and> y \<le> 0.0100001 \<longrightarrow>
      funding_rate_text ts rnd (i\<lparr>funding_rate := Finite r\<rparr>) = ''+0.01%'' \<and>
      current_funding_rate_card ts rnd (Value (Finite r)) = ''0.0100%''"
  proof
    assume a: "rnd (r * 100) = Finite y \<and> 0.0099999 \<le> y \<and> y \<le> 0.0100001"
    then have t: "toFixed ts (Finite y) 2 = ''0.01''" "toFixed ts (Finite y) 4 = ''0.0100''"
      using toFixed_near_one_hundredth [of y ts] by simp_all
    from a have "0 \<le> y" by simp
    with a t show "funding_rate_text ts rnd (i\<lparr>funding_rate := Finite r\<rparr>) = ''+0.01%'' \<and>
      current_funding_rate_card ts rnd (Value (Finite r)) = ''0.0100%''"
      by (simp add: rates cards Dashboard_formatPercent_Finite)
  qed
  have tie: "rnd (r * 100) = Finite 0.375 \<longrightarrow>
      funding_rate_text ts rnd (i\<lparr>funding_rate := Finite r\<rparr>) = ''+0.38%''"
  proof
    assume "rnd (r * 100) = Finite 0.375"
    then have "funding_rate_text ts rnd (i\<lparr>funding_rate := Finite r\<rparr>) =
        ''+'' @ toFixed ts (Finite 0.375) 2 @ ''%''"
      by (simp add: rates Dashboard_formatPercent_Finite)
    then show "funding_rate_text ts rnd (i\<lparr>funding_rate := Finite r\<rparr>) = ''+0.38%''"
      by (simp only: toFixed_tie) simp
  qed
  from chip [of s] cell [of s] projected rates cards rounded convention examples near tie
  show ?thesis
    by (intro conjI)
qed

theorem spread_percent_shown_unscaled_witness:
  "(0::real) < 3000 \<and>
   snd (snd (spread_chip (\<lambda>x. [])
     (example_instrument\<lparr>InstrumentData.spread_percent := Finite (spread_pct 2990 3000)\<rparr>))) =
     TrendingDown \<and>
   Finite (0.0001 * 100) = Finite 0.01 \<and>
   funding_rate_text (\<lambda>x. []) Finite (example_instrument\<lparr>funding_rate := Finite 0.0001\<rparr>) =
     ''+0.01%'' \<and>
   Finite (0.00375 * 100) = Finite 0.375 \<and>
   funding_rate_text (\<lambda>x. []) Finite (example_instrument\<lparr>funding_rate := Finite 0.00375\<rparr>) =
     ''+0.38%''"
proof -
  note a = spread_percent_shown_unscaled [where ts = "\<lambda>x. []" and i = example_instrument
      and f = example_future and s = 0 and q = 0 and r = "0.0001" and rnd = Finite
      and y = "0.01" and P = 3000 and F = 2990]
  note b = spread_percent_shown_unscaled [where ts = "\<lambda>x. []" and i = example_instrument
      and f = example_future and s = 0 and q = 0 and r = "0.00375" and rnd = Finite
      and y = "0.375" and P = 3000 and F = 2990]
  define c where "c = snd (snd (spread_chip (\<lambda>x. [])
     (example_instrument\<lparr>InstrumentData.spread_percent := Finite (spread_pct 2990 3000)\<rparr>)))"
  have p: "(0::real) < 3000" by simp
  have e1: "Finite (0.0001 * 100) = Finite 0.01" by simp
  have e2: "Finite (0.00375 * 100) = Finite 0.375" by simp
  have c1: "(0.0099999::real) \<le> 0.01" "(0.01::real) \<le> 0.0100001" by simp_all
  from a p have "c = TrendingUp \<longleftrightarrow> (3000::real) \<le> 2990"
    unfolding c_def by (elim conjE) (erule (1) impE, elim conjE, assumption)
  then have "c \<noteq> TrendingUp" by simp
  then have down: "c = TrendingDown" by (cases c) simp_all
  from a e1 c1
  have near: "funding_rate_text (\<lambda>x. []) Finite
      (example_instrument\<lparr>funding_rate := Finite 0.0001\<rparr>) = ''+0.01%''"
    by (elim conjE) (erule impE, intro conjI, assumption+, elim conjE, assumption)
  from b e2
  have tie: "funding_rate_text (\<lambda>x. []) Finite
      (example_instrument\<lparr>funding_rate := Finite 0.00375\<rparr>) = ''+0.38%''"
    by (elim conjE) (erule (1) impE)
  from p down [unfolded c_def] e1 near e2 tie show ?thesis
    by (intro conjI)
qed

section \<open>The fair value and the profit figures\<close>

lemma fair_spread_value: "P \<noteq> 0 \<Longrightarrow> fair_spread_pct P r d = Some (r * d / 365 * 100)"
  by (simp add: fair_spread_pct_def fair_price_def field_simps)

text \<open>
  C7. For a perpetual price other than zero and a positive number of days, the fair
  spread has a value and its sign is the sign of the risk-free rate; at zero days the
  fair price is the perpetual price and the fair spread is zero.
\<close>

theorem fair_spread_sign:
  "(P \<noteq> 0 \<and> 0 < d \<longrightarrow> (\<exists>x. fair_spread_pct P r d = Some x \<and> sgn x = sgn r)) \<and>
   fair_price P r 0 = P \<and>
   (P \<noteq> 0 \<longrightarrow> fair_spread_pct P r 0 = Some 0)"
proof (intro conjI impI)
  assume "P \<noteq> 0 \<and> 0 < d"
  then have v: "fair_spread_pct P r d = Some (r * d / 365 * 100)" and d: "0 < d"
    by (simp_all add: fair_spread_value)
  have "sgn (r * d / 365 * 100) = sgn r"
    using d by (simp add: sgn_mult sgn_divide)
  with v show "\<exists>x. fair_spread_pct P r d = Some x \<and> sgn x = sgn r" by blast
next
  show "fair_price P r 0 = P" by (simp add: fair_price_def)
next
  assume "P \<noteq> 0"
  then show "fair_spread_pct P r 0 = Some 0" by (simp add: fair_spread_value)
qed

theorem fair_spread_sign_witness:
  "(3000::real) \<noteq> 0 \<and> (0::real) < 30 \<and>
   (\<exists>x. fair_spread_pct 3000 0.05 30 = Some x \<and> sgn x = 1) \<and>
   fair_spread_pct 3000 0.05 0 = Some 0"
  using fair_spread_sign [where P = 3000 and r = "0.05" and d = 30] by simp

text \<open>
  C3. The scenario: perpetual at 3000, future at 3015, thirty days, a risk-free rate of
  0.05 and a short-window funding rate of 0.0001 per interval. The spread is 0.5, the
  fair price is \<open>3000 * (1 + 0.05 * 30 / 365)\<close>, which rounds to 3012.33, the fair spread
  rounds to 0.411, the commission is 0.1160, the projected funding is 0.9, the net
  profit is 0.284, and the annualised return is \<open>0.284 * 365 / 30\<close>, which rounds to
  3.455.
\<close>

theorem scenario_values:
  "spread_pct 3015 3000 = 0.5 \<and>
   fair_price 3000 0.05 30 = 3000 * (1 + 0.05 * 30 / 365) \<and>
   \<bar>fair_price 3000 0.05 30 - 3012.33\<bar> < 0.005 \<and>
   fair_spread_pct 3000 0.05 30 = Some (30 / 73) \<and>
   \<bar>30 / 73 - 0.411 :: real\<bar> < 0.0005 \<and>
   commission = 0.1160 \<and>
   funding_until_expiration (Some 0.0001) 30 = Some 0.9 \<and>
   net_profit (funding_until_expiration (Some 0.0001) 30) (spread_pct 3015 3000) = Some 0.284 \<and>
   annualised_return
       (net_profit (funding_until_expiration (Some 0.0001) 30) (spread_pct 3015 3000)) 30
     = Some (0.284 * 365 / 30) \<and>
   \<bar>0.284 * 365 / 30 - 3.455 :: real\<bar> < 0.0005"
  by (simp add: spread_pct_def fair_price_def fair_spread_pct_def commission_def
      commission_per_leg_def funding_until_expiration_def funding_intervals_per_day_def
      net_profit_def annualised_return_def)

section \<open>Rejected configuration updates\<close>

lemma failing_fields_sound:
  "field \<in> set (failing_fields upd) \<Longrightarrow> \<exists>v. upd field = Some v \<and> \<not> in_range field v"
  by (auto simp: failing_fields_def split: option.splits)

lemma failing_fields_complete:
  "field \<in> set checked_fields \<Longrightarrow> upd field = Some v \<Longrightarrow> \<not> in_range field v \<Longrightarrow>
   failing_fields upd \<noteq> []"
  unfolding failing_fields_def filter_empty_conv
  by (rule notI, drule bspec, assumption) simp

lemma update_config_rejected:
  assumes "failing_fields upd \<noteq> []"
  shows "\<exists>field v. update_config current upd = (Inl field, current) \<and>
           upd field = Some v \<and> \<not> in_range field v"
proof -
  from assms obtain field others where ff: "failing_fields upd = field # others"
    by (cases "failing_fields upd") auto
  then have "field \<in> set (failing_fields upd)" by simp
  then obtain v where "upd field = Some v" "\<not> in_range field v"
    using failing_fields_sound by blast
  moreover have "update_config current upd = (Inl field, current)"
    by (simp add: update_config_def ff)
  ultimately show ?thesis by blast
qed

text \<open>
  C5. An update with a checked field outside its range is rejected, the rejection names
  a field of the update that is outside its range, and the configuration read
  afterwards is the one before. In particular an update with a leverage that is not
  positive is rejected, and the update \<^verbatim>\<open>{leverage: -1}\<close> is rejected naming \<^verbatim>\<open>leverage\<close>.
\<close>

theorem rejected_update_leaves_config:
  "((\<exists>field \<in> set checked_fields. \<exists>v. upd field = Some v \<and> \<not> in_range field v) \<longrightarrow>
      (\<exists>field v. update_config current upd = (Inl field, current) \<and>
         upd field = Some v \<and> \<not> in_range field v) \<and>
      get_config (snd (update_config current upd)) = current) \<and>
   (upd ''leverage'' = Some (Num (Finite l)) \<and> l \<le> 0 \<longrightarrow>
      (\<exists>field. update_config current upd = (Inl field, current))) \<and>
   update_config current [''leverage'' \<mapsto> Num (Finite (- 1))] = (Inl ''leverage'', current) \<and>
   get_config (snd (update_config current [''leverage'' \<mapsto> Num (Finite (- 1))])) = current"
proof (intro conjI impI)
  assume a: "\<exists>field \<in> set checked_fields. \<exists>v. upd field = Some v \<and> \<not> in_range field v"
  then have ne: "failing_fields upd \<noteq> []"
    using failing_fields_complete by blast
  from update_config_rejected [OF ne]
  show r: "\<exists>field v. update_config current upd = (Inl field, current) \<and>
         upd field = Some v \<and> \<not> in_range field v" .
  then show "get_config (snd (update_config current upd)) = current"
    by (auto simp: get_config_def)
next
  assume "upd ''leverage'' = Some (Num (Finite l)) \<and> l \<le> 0"
  then have "failing_fields upd \<noteq> []"
    using failing_fields_complete [of "''leverage''" upd "Num (Finite l)"]
    by (simp add: checked_fields_def in_range_def)
  from update_config_rejected [OF this]
  show "\<exists>field. update_config current upd = (Inl field, current)" by blast
next
  show u: "update_config current [''leverage'' \<mapsto> Num (Finite (- 1))] = (Inl ''leverage'', current)"
    by (simp add: update_config_def failing_fields_def checked_fields_def in_range_def)
  show "get_config (snd (update_config current [''leverage'' \<mapsto> Num (Finite (- 1))])) = current"
    by (simp add: u get_config_def)
qed

theorem rejected_update_leaves_config_witness:
  "[''leverage'' \<mapsto> Num (Finite (- 1))] ''leverage'' = Some (Num (Finite (- 1))) \<and>
   (- 1 :: real) \<le> 0 \<and>
   (\<exists>field. update_config example_config [''leverage'' \<mapsto> Num (Finite (- 1))] =
      (Inl field, example_config))"
  using rejected_update_leaves_config [where upd = "[''leverage'' \<mapsto> Num (Finite (- 1))]"
      and l = "- 1" and current = example_config]
  by simp

section \<open>The settings editor\<close>





section \<open>Delivery to the subscribers\<close>

lemmas service_defs = initial_def connect_def disconnect_def clear_reconnect_def close_def
  subscribe_def unsubscribe_def onopen_def onclose_def onerror_def fire_def step_def

lemma example_system_reachable:
  "run call parse [Connect ''/ws/instruments'', Fire (Open 1), Subscribe 7, Subscribe 9]
     (initial (\<lambda>l. empty_dashboard)) = Some example_system"
  by (simp add: service_defs example_system_def)

lemma forEach_Dashboard:
  "forEach (Dashboard_call now) ls d (cs, w) =
     Returned (cs @ map (\<lambda>l. (l, d)) ls,
       fold (\<lambda>l w. w(l := Dashboard_listener now d (w l))) ls w)"
  by (induction ls arbitrary: cs w) (simp_all add: Dashboard_call_def)

lemma fold_Dashboard_array:
  "l \<in> set ls \<or> instruments (w l) = rows \<Longrightarrow>
   instruments (fold (\<lambda>l w. w(l := Dashboard_listener now (JArray rows) (w l))) ls w l) = rows"
  by (induction ls arbitrary: w) (auto simp: Dashboard_listener_def)

lemma fold_Dashboard_other:
  "\<not> isArray d \<Longrightarrow> fold (\<lambda>l w. w(l := Dashboard_listener now d (w l))) ls w = w"
  by (induction ls arbitrary: w) (auto simp: Dashboard_listener_def split: json.splits)

lemma onmessage_Dashboard:
  "parse msg = Some d \<Longrightarrow>
   onmessage (Dashboard_call now) parse msg s =
     Returned (s\<lparr>calls := calls s @ map (\<lambda>l. (l, d)) (listeners s),
        world := fold (\<lambda>l w. w(l := Dashboard_listener now d (w l))) (listeners s) (world s)\<rparr>)"
  by (simp add: onmessage_def onmessage_try_def forEach_Dashboard)

lemma forEach_returns:
  assumes "\<forall>l d w. \<exists>w'. call l d w = Returned w'"
  shows "\<exists>w'. forEach call ls d (cs, w) = Returned (cs @ map (\<lambda>l. (l, d)) ls, w')"
proof (induction ls arbitrary: cs w)
  case Nil
  then show ?case by simp
next
  case (Cons l ls)
  from assms obtain w1 where w1: "call l d w = Returned w1" by blast
  from Cons.IH [of "cs @ [(l, d)]" w1] w1 show ?case by simp
qed

text \<open>
  C6. A message that parses is passed to every listener of the set, in order, as long
  as no listener throws; the listener of the dashboard never throws. When the parsed
  value is an array, every subscribed dashboard afterwards holds exactly that array
  as its instruments, whatever it held before, and the set of listeners is unchanged.
\<close>

theorem delivery_replaces_instruments:
  "((\<forall>l d w. \<exists>w'. call l d w = Returned w') \<and> parse msg = Some d \<and>
      sockets s sock = Some (endpoint, OPEN) \<longrightarrow>
      (\<exists>s'. fire call parse (Message sock msg) s = Some s' \<and>
         calls s' = calls s @ map (\<lambda>l. (l, d)) (listeners s))) \<and>
   (parse msg = Some (JArray rows) \<and> sockets t sock = Some (endpoint, OPEN) \<longrightarrow>
      (\<exists>t'. fire (Dashboard_call now) parse (Message sock msg) t = Some t' \<and>
         (\<forall>l \<in> set (listeners t). instruments (world t' l) = rows) \<and>
         calls t' = calls t @ map (\<lambda>l. (l, JArray rows)) (listeners t) \<and>
         listeners t' = listeners t))"
proof (intro conjI impI)
  assume a: "(\<forall>l d w. \<exists>w'. call l d w = Returned w') \<and> parse msg = Some d \<and>
      sockets s sock = Some (endpoint, OPEN)"
  then obtain w' where
    "forEach call (listeners s) d (calls s, world s) =
       Returned (calls s @ map (\<lambda>l. (l, d)) (listeners s), w')"
    using forEach_returns [of call "listeners s" d "calls s" "world s"] by blast
  with a show "\<exists>s'. fire call parse (Message sock msg) s = Some s' \<and>
         calls s' = calls s @ map (\<lambda>l. (l, d)) (listeners s)"
    by (simp add: fire_def onmessage_def onmessage_try_def)
next
  assume a: "parse msg = Some (JArray rows) \<and> sockets t sock = Some (endpoint, OPEN)"
  let ?t' = "t\<lparr>calls := calls t @ map (\<lambda>l. (l, JArray rows)) (listeners t),
        world := fold (\<lambda>l w. w(l := Dashboard_listener now (JArray rows) (w l)))
          (listeners t) (world t)\<rparr>"
  have "fire (Dashboard_call now) parse (Message sock msg) t = Some ?t'"
    using a by (simp add: fire_def onmessage_Dashboard)
  moreover have "\<forall>l \<in> set (listeners t). instruments (world ?t' l) = rows"
    by (simp add: fold_Dashboard_array)
  ultimately show "\<exists>t'. fire (Dashboard_call now) parse (Message sock msg) t = Some t' \<and>
        (\<forall>l \<in> set (listeners t). instruments (world t' l) = rows) \<and>
        calls t' = calls t @ map (\<lambda>l. (l, JArray rows)) (listeners t) \<and>
        listeners t' = listeners t"
    by (intro exI [of _ ?t']) simp
qed

theorem delivery_replaces_instruments_witness:
  "example_parse ''[null]'' = Some (JArray [JNull]) \<and>
   sockets example_system 1 = Some (''/ws/instruments'', OPEN) \<and>
   (\<exists>t'. fire (Dashboard_call 5) example_parse (Message 1 ''[null]'') example_system = Some t' \<and>
      instruments (world t' 7) = [JNull] \<and> instruments (world t' 9) = [JNull] \<and>
      calls t' = [(7, JArray [JNull]), (9, JArray [JNull])])"
proof -
  have p: "example_parse ''[null]'' = Some (JArray [JNull])"
    by (simp add: example_parse_def)
  have o: "sockets example_system 1 = Some (''/ws/instruments'', OPEN)"
    by (simp add: example_system_def)
  have l: "listeners example_system = [7, 9]" and c: "calls example_system = []"
    by (simp_all add: example_system_def)
  note delivery_replaces_instruments [where parse = example_parse and msg = "''[null]''"
      and rows = "[JNull]" and t = example_system and sock = 1
      and endpoint = "''/ws/instruments''" and now = 5 and call = "Dashboard_call 5"
      and d = "JArray [JNull]" and s = example_system, THEN conjunct2, rule_format]
  from this [OF conjI [OF p o]] obtain t' where
    t: "fire (Dashboard_call 5) example_parse (Message 1 ''[null]'') example_system = Some t'"
      "\<forall>l \<in> set (listeners example_system). instruments (world t' l) = [JNull]"
      "calls t' = calls example_system @ map (\<lambda>l. (l, JArray [JNull])) (listeners example_system)"
    by (elim exE conjE)
  from t(2) have "instruments (world t' 7) = [JNull]" "instruments (world t' 9) = [JNull]"
    by (simp_all add: l)
  moreover from t(3) have "calls t' = [(7, JArray [JNull]), (9, JArray [JNull])]"
    by (simp add: l c)
  ultimately show ?thesis
    using p o t(1) by (intro conjI exI [of _ t']) 
qed

section \<open>Malformed messages\<close>

text \<open>
  C10. A message that does not parse leaves the whole state as it was, whatever the
  listeners are; \<^verbatim>\<open>onmessage\<close> always returns, whether the parse or a listener
  throws; and a parsed value that is not an array leaves the state of every dashboard
  as it was.
\<close>

theorem malformed_message_changes_nothing:
  "(parse msg = None \<longrightarrow> onmessage call parse msg s = Returned s) \<and>
   (\<exists>s'. onmessage call parse msg s = Returned s') \<and>
   (parse msg = Some d \<and> \<not> isArray d \<longrightarrow>
      (\<exists>t'. onmessage (Dashboard_call now) parse msg t = Returned t' \<and> world t' = world t))"
proof (intro conjI impI)
  assume "parse msg = None"
  then show "onmessage call parse msg s = Returned s"
    by (simp add: onmessage_def onmessage_try_def)
next
  show "\<exists>s'. onmessage call parse msg s = Returned s'"
    by (cases "onmessage_try call parse msg s") (simp_all add: onmessage_def)
next
  assume "parse msg = Some d \<and> \<not> isArray d"
  then show "\<exists>t'. onmessage (Dashboard_call now) parse msg t = Returned t' \<and> world t' = world t"
    by (simp add: onmessage_Dashboard fold_Dashboard_other)
qed

theorem malformed_message_changes_nothing_witness:
  "example_parse ''oops'' = None \<and>
   onmessage (Dashboard_call 5) example_parse ''oops'' example_system = Returned example_system \<and>
   example_parse ''{}'' = Some (JObject []) \<and> \<not> isArray (JObject []) \<and>
   (\<exists>t'. onmessage (Dashboard_call 5) example_parse ''{}'' example_system = Returned t' \<and>
      world t' = world example_system)"
proof -
  have p1: "example_parse ''oops'' = None"
    by (simp add: example_parse_def)
  have p2: "example_parse ''{}'' = Some (JObject [])"
    by (simp add: example_parse_def)
  have p3: "\<not> isArray (JObject [])"
    by simp
  note thm1 = malformed_message_changes_nothing [where parse = example_parse
      and msg = "''oops''" and call = "Dashboard_call 5" and s = example_system
      and d = JNull and now = 5 and t = example_system]
  note thm2 = malformed_message_changes_nothing [where parse = example_parse
      and msg = "''{}''" and call = "Dashboard_call 5" and s = example_system
      and d = "JObject []" and now = 5 and t = example_system]
  have a: "onmessage (Dashboard_call 5) example_parse ''oops'' example_system =
      Returned example_system"
    using thm1 [THEN conjunct1, rule_format, OF p1] .
  have b: "\<exists>t'. onmessage (Dashboard_call 5) example_parse ''{}'' example_system = Returned t' \<and>
      world t' = world example_system"
    using thm2 [THEN conjunct2, THEN conjunct2, rule_format, OF conjI [OF p2 p3]] .
  from p1 a p2 p3 b show ?thesis
    by (intro conjI)
qed

section \<open>Unsubscribing and disconnecting\<close>

lemma forEach_calls:
  "forEach call ls d (cs, w) = Returned (cs', w') \<or> forEach call ls d (cs, w) = Thrown (cs', w') \<Longrightarrow>
   l \<notin> set ls \<Longrightarrow> filter (\<lambda>c. fst c = l) cs' = filter (\<lambda>c. fst c = l) cs"
  by (induction ls arbitrary: cs w) (auto split: outcome.splits)

lemma onmessage_Returned: "\<exists>s'. onmessage call parse msg s = Returned s'"
  by (cases "onmessage_try call parse msg s") (simp_all add: onmessage_def)

lemma onmessage_calls:
  assumes "onmessage call parse msg s = Returned s'" "l \<notin> set (listeners s)"
  shows "filter (\<lambda>c. fst c = l) (calls s') = filter (\<lambda>c. fst c = l) (calls s) \<and>
         listeners s' = listeners s"
proof (cases "parse msg")
  case None
  with assms show ?thesis by (simp add: onmessage_def onmessage_try_def)
next
  case (Some d)
  obtain r where r: "forEach call (listeners s) d (calls s, world s) = r" by simp
  show ?thesis
  proof (cases r)
    case (Returned p)
    obtain cs w where p: "p = (cs, w)" by (cases p)
    with Returned r Some assms(1) have s': "s' = s\<lparr>calls := cs, world := w\<rparr>"
      by (simp add: onmessage_def onmessage_try_def)
    from forEach_calls [of call "listeners s" d "calls s" "world s" cs w l] r Returned p assms(2)
    show ?thesis by (simp add: s')
  next
    case (Thrown p)
    obtain cs w where p: "p = (cs, w)" by (cases p)
    with Thrown r Some assms(1) have s': "s' = s\<lparr>calls := cs, world := w\<rparr>"
      by (simp add: onmessage_def onmessage_try_def)
    from forEach_calls [of call "listeners s" d "calls s" "world s" cs w l] r Thrown p assms(2)
    show ?thesis by (simp add: s')
  qed
qed

lemma fire_keeps_unsubscribed:
  assumes "fire call parse e s = Some s'" "l \<notin> set (listeners s)"
  shows "l \<notin> set (listeners s') \<and>
         filter (\<lambda>c. fst c = l) (calls s') = filter (\<lambda>c. fst c = l) (calls s)"
proof (cases e)
  case (Message sock msg)
  obtain t where t: "onmessage call parse msg s = Returned t"
    using onmessage_Returned by blast
  with assms(1) Message have "s' = t"
    by (auto simp: fire_def split: option.splits readyState.splits)
  with onmessage_calls [OF t assms(2)] assms(2) show ?thesis by simp
next
  case (Open sock)
  with assms show ?thesis
    by (auto simp: fire_def onopen_def clear_reconnect_def split: option.splits readyState.splits)
next
  case (Failure sock)
  with assms show ?thesis
    by (auto simp: fire_def onerror_def split: option.splits)
next
  case (Close sock)
  with assms show ?thesis
    by (auto simp: fire_def onclose_def split: option.splits if_splits)
next
  case (Timeout t)
  with assms show ?thesis
    by (auto simp: fire_def connect_def split: option.splits)
qed

lemma step_keeps_unsubscribed:
  assumes "step call parse a s = Some s'" "a \<noteq> Subscribe l" "l \<notin> set (listeners s)"
  shows "l \<notin> set (listeners s') \<and>
         filter (\<lambda>c. fst c = l) (calls s') = filter (\<lambda>c. fst c = l) (calls s)"
proof (cases a)
  case (Fire e)
  with assms fire_keeps_unsubscribed [of call parse e s s' l] show ?thesis
    by (simp add: step_def)
next
  case (Connect endpoint)
  with assms show ?thesis by (auto simp: step_def connect_def)
next
  case Disconnect
  with assms show ?thesis
    by (auto simp: step_def disconnect_def clear_reconnect_def Let_def split: option.splits)
next
  case (Subscribe k)
  with assms show ?thesis by (auto simp: step_def subscribe_def split: if_splits)
next
  case (Unsubscribe k)
  with assms show ?thesis by (auto simp: step_def unsubscribe_def)
qed

lemma run_keeps_unsubscribed:
  "run call parse as s = Some s' \<Longrightarrow> Subscribe l \<notin> set as \<Longrightarrow> l \<notin> set (listeners s) \<Longrightarrow>
   l \<notin> set (listeners s') \<and>
   filter (\<lambda>c. fst c = l) (calls s') = filter (\<lambda>c. fst c = l) (calls s)"
proof (induction as arbitrary: s)
  case Nil
  then show ?case by simp
next
  case (Cons a as)
  from Cons.prems(1) obtain t where t: "step call parse a s = Some t" "run call parse as t = Some s'"
    by (auto split: option.splits)
  have "a \<noteq> Subscribe l" "Subscribe l \<notin> set as"
    using Cons.prems(2) by auto
  with step_keeps_unsubscribed [OF t(1) _ Cons.prems(3)]
  have mid: "l \<notin> set (listeners t)"
      "filter (\<lambda>c. fst c = l) (calls t) = filter (\<lambda>c. fst c = l) (calls s)"
    by simp_all
  from Cons.IH [OF t(2) \<open>Subscribe l \<notin> set as\<close> mid(1)] mid(2) show ?case by simp
qed

text \<open>
  The first half of C8 holds: once the closure returned by \<^verbatim>\<open>subscribe\<close> has been
  called, the listener is not in the set, and whatever happens next (calls of the
  service, events of the browser), short of subscribing it again, it stays out of the
  set and is not invoked.
\<close>

lemma unsubscribed_never_invoked:
  "run call parse as (unsubscribe l s) = Some s' \<Longrightarrow> Subscribe l \<notin> set as \<Longrightarrow>
   l \<notin> set (listeners s') \<and>
   filter (\<lambda>c. fst c = l) (calls s') = filter (\<lambda>c. fst c = l) (calls s)"
  using run_keeps_unsubscribed [of call parse as "unsubscribe l s" s' l]
  by (simp add: unsubscribe_def)

text \<open>
  \<^verbatim>\<open>disconnect\<close> by itself leaves no stored socket, no stored timer handle, and no
  pending timer under the handle it cleared.
\<close>

lemma disconnect_clears:
  "ws (disconnect s) = None \<and> reconnectTimeout (disconnect s) = None \<and>
   (reconnectTimeout s = Some t \<longrightarrow> timers (disconnect s) t = None)"
  by (simp add: disconnect_def clear_reconnect_def Let_def split: option.splits)

text \<open>
  C8. The second half fails. The service connects, the socket opens, a listener is
  subscribed and unsubscribed, and \<^verbatim>\<open>disconnect\<close> is called; the browser then fires
  the \<^verbatim>\<open>close\<close> event of the socket that \<^verbatim>\<open>disconnect\<close> closed. The handler
  \<^verbatim>\<open>onclose\<close> is still attached to that socket: a reconnect timer is pending again,
  and when it expires \<^verbatim>\<open>connect\<close> creates a new socket, with no listener left.
\<close>

theorem reconnect_after_disconnect:
  "\<exists>s. run call parse
       [Connect ''/ws/instruments'', Fire (Open 1), Subscribe 7, Unsubscribe 7, Disconnect,
        Fire (Close 1)] (initial w) = Some s \<and>
     ws s = None \<and> listeners s = [] \<and>
     reconnectTimeout s = Some 2 \<and> timers s 2 = Some ''/ws/instruments'' \<and>
     (\<exists>s'. fire call parse (Timeout 2) s = Some s' \<and> ws s' = Some 3 \<and>
        sockets s' 3 = Some (''/ws/instruments'', CONNECTING))"
  by (simp add: service_defs Let_def)

end
